theory Spec2Isabelle
  imports Main "HOL-Library.Word"
begin

section \<open>The eth sub-protocol (version 63): command table and senders\<close>

text \<open>
  This theory embeds \<^verbatim>\<open>myEVM/trinity/protocol/eth/proto.py\<close>, the class
  \<^verbatim>\<open>ETHProtocol\<close>: its class attributes (name, version, command table, command length)
  and its fourteen methods, each of which builds a payload, resolves a command with the
  session's command-ID offset, has the command encode the payload and hands the frame to
  the transport.

  Two collaborators are outside this file and are parameters of every method here:
  \<^item> \<open>encode\<close>, the codec: \<^verbatim>\<open>Command(cmd_id_offset).encode(data)\<close> returns a
    \<open>(header, body)\<close> pair of byte strings or raises;
  \<^item> \<open>send\<close>, the transport: \<^verbatim>\<open>Protocol.send(header, body)\<close> transmits one frame or
    raises, and may change the state of the session as it does.
  An exception is a left value of a sum; the state a call leaves behind is returned with
  it, since a Python exception undoes nothing.
\<close>

subsection \<open>Values\<close>

type_synonym bytes = "8 word list"

text \<open>
  Python values as they reach the codec. The fields of the descriptors are annotated
  (\<^verbatim>\<open>int\<close>, \<^verbatim>\<open>bool\<close>, \<^verbatim>\<open>Hash32\<close>, \<^verbatim>\<open>Tuple[Hash32, ...]\<close>, ...) but Python checks no
  annotation at run time, so a field holds any value. A dictionary is the list of its
  items in insertion order. \<open>PyObj\<close> stands for the domain objects built elsewhere
  (block headers, block bodies, receipts, transactions).
\<close>

datatype 'o pyval =
    PyInt int
  | PyBool bool
  | PyBytes bytes
  | PySeq "'o pyval list"
  | PyDict "(string \<times> 'o pyval) list"
  | PyObj 'o

subsection \<open>Commands\<close>

text \<open>The twelve command classes imported from \<^verbatim>\<open>.commands\<close>.\<close>

datatype command =
    Status | NewBlockHashes | Transactions | GetBlockHeaders | BlockHeaders
  | GetBlockBodies | BlockBodies | NewBlock | GetNodeData | NodeData
  | GetReceipts | Receipts

text \<open>
  A command instance \<^verbatim>\<open>Status(self.cmd_id_offset)\<close> is the command class with the offset
  it was built with.
\<close>

type_synonym cmd = "command \<times> int"

subsection \<open>Descriptors and the protocol instance\<close>

text \<open>\<^verbatim>\<open>ChainInfo\<close>: the fields \<^verbatim>\<open>send_handshake\<close> reads.\<close>

record 'o chain_info =
  total_difficulty :: "'o pyval"
  block_hash :: "'o pyval"
  genesis_hash :: "'o pyval"

record 'o node_data_request =
  node_hashes :: "'o pyval"

record 'o header_request =
  block_number_or_hash :: "'o pyval"
  max_headers :: "'o pyval"
  skip :: "'o pyval"
  reverse :: "'o pyval"

record 'o block_bodies_request =
  block_hashes :: "'o pyval"

record 'o receipts_request =
  block_hashes :: "'o pyval"

text \<open>\<^verbatim>\<open>self.peer\<close> and \<^verbatim>\<open>self\<close>: the attributes the methods read.\<close>

record 'o base_peer =
  network_id :: "'o pyval"

record 'o eth_protocol =
  peer :: "'o base_peer"
  cmd_id_offset :: int

text \<open>
  What a call can touch: the protocol instance, the state of the transport behind
  \<^verbatim>\<open>self.send\<close>, and the records written through \<^verbatim>\<open>self.logger.debug\<close> (format string
  and argument).
\<close>

record ('o, 'w) session =
  proto :: "'o eth_protocol"
  transport :: 'w
  debug_log :: "(string \<times> 'o pyval) list"

type_synonym ('e, 'o) encoder = "cmd \<Rightarrow> 'o pyval \<Rightarrow> 'e + bytes \<times> bytes"

type_synonym ('e, 'o, 'w) outcome = "('e + unit) \<times> ('o, 'w) session"

type_synonym ('e, 'o, 'w) sender =
  "bytes \<Rightarrow> bytes \<Rightarrow> ('o, 'w) session \<Rightarrow> ('e, 'o, 'w) outcome"

subsection \<open>Class attributes\<close>

definition name :: string where
  "name = ''eth''"

definition version :: int where
  "version = 63"

text \<open>\<^verbatim>\<open>_commands\<close> (an Isabelle name cannot start with an underscore).\<close>

definition commands :: "command list" where
  "commands =
    [Status, NewBlockHashes, Transactions, GetBlockHeaders, BlockHeaders,
     GetBlockBodies, BlockBodies, NewBlock, GetNodeData, NodeData,
     GetReceipts, Receipts]"

definition cmd_length :: int where
  "cmd_length = 17"

subsection \<open>Handshake\<close>

definition send_handshake ::
  "('e, 'o) encoder \<Rightarrow> ('e, 'o, 'w) sender \<Rightarrow> 'o chain_info \<Rightarrow>
   ('o, 'w) session \<Rightarrow> ('e, 'o, 'w) outcome" where
  "send_handshake encode send head_info s =
    (let resp = PyDict
           [(''protocol_version'', PyInt version),
            (''network_id'', network_id (peer (proto s))),
            (''td'', total_difficulty head_info),
            (''best_hash'', block_hash head_info),
            (''genesis_hash'', genesis_hash head_info)];
         cmd = (Status, cmd_id_offset (proto s));
         s1 = s\<lparr>debug_log := debug_log s @ [(''Sending ETH/Status msg: %s'', resp)]\<rparr>
     in case encode cmd resp of
          Inl e \<Rightarrow> (Inl e, s1)
        | Inr (header, body) \<Rightarrow> send header body s1)"

subsection \<open>Node data\<close>

text \<open>
  The methods whose Python name starts with an underscore carry the prefix \<open>priv_\<close>.
  A parameter that has the name of a field of a descriptor is written with a prime.
\<close>

definition priv_send_get_node_data ::
  "('e, 'o) encoder \<Rightarrow> ('e, 'o, 'w) sender \<Rightarrow> 'o pyval \<Rightarrow>
   ('o, 'w) session \<Rightarrow> ('e, 'o, 'w) outcome" where
  "priv_send_get_node_data encode send node_hashes' s =
    (let cmd = (GetNodeData, cmd_id_offset (proto s))
     in case encode cmd node_hashes' of
          Inl e \<Rightarrow> (Inl e, s)
        | Inr (header, body) \<Rightarrow> send header body s)"

definition send_get_node_data ::
  "('e, 'o) encoder \<Rightarrow> ('e, 'o, 'w) sender \<Rightarrow> 'o node_data_request \<Rightarrow>
   ('o, 'w) session \<Rightarrow> ('e, 'o, 'w) outcome" where
  "send_get_node_data encode send request s =
    priv_send_get_node_data encode send (node_hashes request) s"

definition send_node_data ::
  "('e, 'o) encoder \<Rightarrow> ('e, 'o, 'w) sender \<Rightarrow> 'o pyval \<Rightarrow>
   ('o, 'w) session \<Rightarrow> ('e, 'o, 'w) outcome" where
  "send_node_data encode send nodes s =
    (let cmd = (NodeData, cmd_id_offset (proto s))
     in case encode cmd nodes of
          Inl e \<Rightarrow> (Inl e, s)
        | Inr (header, body) \<Rightarrow> send header body s)"

subsection \<open>Block headers\<close>

definition priv_send_get_block_headers ::
  "('e, 'o) encoder \<Rightarrow> ('e, 'o, 'w) sender \<Rightarrow>
   'o pyval \<Rightarrow> 'o pyval \<Rightarrow> 'o pyval \<Rightarrow> 'o pyval \<Rightarrow>
   ('o, 'w) session \<Rightarrow> ('e, 'o, 'w) outcome" where
  "priv_send_get_block_headers encode send block_number_or_hash' max_headers' skip' reverse' s =
    (let cmd = (GetBlockHeaders, cmd_id_offset (proto s));
         data = PyDict
           [(''block_number_or_hash'', block_number_or_hash'),
            (''max_headers'', max_headers'),
            (''skip'', skip'),
            (''reverse'', reverse')]
     in case encode cmd data of
          Inl e \<Rightarrow> (Inl e, s)
        | Inr (header, body) \<Rightarrow> send header body s)"

definition send_get_block_headers ::
  "('e, 'o) encoder \<Rightarrow> ('e, 'o, 'w) sender \<Rightarrow> 'o header_request \<Rightarrow>
   ('o, 'w) session \<Rightarrow> ('e, 'o, 'w) outcome" where
  "send_get_block_headers encode send request s =
    priv_send_get_block_headers encode send
      (block_number_or_hash request) (max_headers request) (skip request) (reverse request) s"

definition send_block_headers ::
  "('e, 'o) encoder \<Rightarrow> ('e, 'o, 'w) sender \<Rightarrow> 'o pyval \<Rightarrow>
   ('o, 'w) session \<Rightarrow> ('e, 'o, 'w) outcome" where
  "send_block_headers encode send headers s =
    (let cmd = (BlockHeaders, cmd_id_offset (proto s))
     in case encode cmd headers of
          Inl e \<Rightarrow> (Inl e, s)
        | Inr (header, body) \<Rightarrow> send header body s)"

subsection \<open>Block bodies\<close>

definition priv_send_get_block_bodies ::
  "('e, 'o) encoder \<Rightarrow> ('e, 'o, 'w) sender \<Rightarrow> 'o pyval \<Rightarrow>
   ('o, 'w) session \<Rightarrow> ('e, 'o, 'w) outcome" where
  "priv_send_get_block_bodies encode send block_hashes' s =
    (let cmd = (GetBlockBodies, cmd_id_offset (proto s))
     in case encode cmd block_hashes' of
          Inl e \<Rightarrow> (Inl e, s)
        | Inr (header, body) \<Rightarrow> send header body s)"

definition send_get_block_bodies ::
  "('e, 'o) encoder \<Rightarrow> ('e, 'o, 'w) sender \<Rightarrow> 'o block_bodies_request \<Rightarrow>
   ('o, 'w) session \<Rightarrow> ('e, 'o, 'w) outcome" where
  "send_get_block_bodies encode send request s =
    priv_send_get_block_bodies encode send (block_bodies_request.block_hashes request) s"

definition send_block_bodies ::
  "('e, 'o) encoder \<Rightarrow> ('e, 'o, 'w) sender \<Rightarrow> 'o pyval \<Rightarrow>
   ('o, 'w) session \<Rightarrow> ('e, 'o, 'w) outcome" where
  "send_block_bodies encode send blocks s =
    (let cmd = (BlockBodies, cmd_id_offset (proto s))
     in case encode cmd blocks of
          Inl e \<Rightarrow> (Inl e, s)
        | Inr (header, body) \<Rightarrow> send header body s)"

subsection \<open>Receipts\<close>

definition priv_send_get_receipts ::
  "('e, 'o) encoder \<Rightarrow> ('e, 'o, 'w) sender \<Rightarrow> 'o pyval \<Rightarrow>
   ('o, 'w) session \<Rightarrow> ('e, 'o, 'w) outcome" where
  "priv_send_get_receipts encode send block_hashes' s =
    (let cmd = (GetReceipts, cmd_id_offset (proto s))
     in case encode cmd block_hashes' of
          Inl e \<Rightarrow> (Inl e, s)
        | Inr (header, body) \<Rightarrow> send header body s)"

definition send_get_receipts ::
  "('e, 'o) encoder \<Rightarrow> ('e, 'o, 'w) sender \<Rightarrow> 'o receipts_request \<Rightarrow>
   ('o, 'w) session \<Rightarrow> ('e, 'o, 'w) outcome" where
  "send_get_receipts encode send request s =
    priv_send_get_receipts encode send (receipts_request.block_hashes request) s"

definition send_receipts ::
  "('e, 'o) encoder \<Rightarrow> ('e, 'o, 'w) sender \<Rightarrow> 'o pyval \<Rightarrow>
   ('o, 'w) session \<Rightarrow> ('e, 'o, 'w) outcome" where
  "send_receipts encode send receipts s =
    (let cmd = (Receipts, cmd_id_offset (proto s))
     in case encode cmd receipts of
          Inl e \<Rightarrow> (Inl e, s)
        | Inr (header, body) \<Rightarrow> send header body s)"

subsection \<open>Transactions\<close>

definition send_transactions ::
  "('e, 'o) encoder \<Rightarrow> ('e, 'o, 'w) sender \<Rightarrow> 'o pyval \<Rightarrow>
   ('o, 'w) session \<Rightarrow> ('e, 'o, 'w) outcome" where
  "send_transactions encode send transactions s =
    (let cmd = (Transactions, cmd_id_offset (proto s))
     in case encode cmd transactions of
          Inl e \<Rightarrow> (Inl e, s)
        | Inr (header, body) \<Rightarrow> send header body s)"

subsection \<open>Vocabulary of the statements\<close>

text \<open>
  \<open>hand_over send fr s\<close> abbreviates the last two lines of every method: the result
  \<open>fr\<close> of the encoder is unpacked into header and body and given to the transport, and
  an exception of the encoder ends the call before the transport is reached.
\<close>

abbreviation hand_over ::
  "('e, 'o, 'w) sender \<Rightarrow> 'e + bytes \<times> bytes \<Rightarrow> ('o, 'w) session \<Rightarrow> ('e, 'o, 'w) outcome" where
  "hand_over send fr s \<equiv>
     (case fr of Inl e \<Rightarrow> (Inl e, s) | Inr (header, body) \<Rightarrow> send header body s)"

lemmas sender_defs =
  send_handshake_def
  priv_send_get_node_data_def send_get_node_data_def send_node_data_def
  priv_send_get_block_headers_def send_get_block_headers_def send_block_headers_def
  priv_send_get_block_bodies_def send_get_block_bodies_def send_block_bodies_def
  priv_send_get_receipts_def send_get_receipts_def send_receipts_def
  send_transactions_def

section \<open>The command table\<close>

text \<open>
  C1. The command table of the eth sub-protocol, version 63, has exactly twelve commands,
  in the order Status, NewBlockHashes, Transactions, GetBlockHeaders, BlockHeaders,
  GetBlockBodies, BlockBodies, NewBlock, GetNodeData, NodeData, GetReceipts, Receipts
  (no command occurs twice, and each sits at the index the order gives it).
\<close>

theorem commands_twelve_in_order:
  "version = 63 \<and>
   length commands = 12 \<and>
   distinct commands \<and>
   commands ! 0 = Status \<and> commands ! 1 = NewBlockHashes \<and> commands ! 2 = Transactions \<and>
   commands ! 3 = GetBlockHeaders \<and> commands ! 4 = BlockHeaders \<and>
   commands ! 5 = GetBlockBodies \<and> commands ! 6 = BlockBodies \<and> commands ! 7 = NewBlock \<and>
   commands ! 8 = GetNodeData \<and> commands ! 9 = NodeData \<and>
   commands ! 10 = GetReceipts \<and> commands ! 11 = Receipts"
  by (simp add: commands_def version_def)

text \<open>
  C2, as amended. The declared command length is the constant 17. It is not the number of
  entries of the command table, which is 12: the sub-protocol reserves a command-ID space
  wider than its table.
\<close>

theorem cmd_length_wider_than_table:
  "cmd_length = 17 \<and> length commands = 12 \<and> int (length commands) < cmd_length"
  by (simp add: cmd_length_def commands_def)

text \<open>
  C2, as stated, fails: the declared command length differs from the number of entries of
  the command table.
\<close>

theorem cmd_length_is_not_table_length:
  "cmd_length \<noteq> int (length commands)"
  by (simp add: cmd_length_def commands_def)

section \<open>Handshake\<close>

text \<open>
  C3. For every ChainInfo value, \<open>send_handshake\<close> builds a mapping with exactly the keys
  protocol_version, network_id, td, best_hash and genesis_hash, each once; protocol_version
  is 63, network_id is the network identifier of the session's peer, and td, best_hash and
  genesis_hash are the total difficulty, the best-block hash and the genesis hash of the
  ChainInfo. It has the Status command, built with the session's command-ID offset, encode
  that mapping, and hands the frame to the transport (after the debug record of the
  mapping is written).
\<close>

theorem send_handshake_status:
  "\<exists>resp.
     set (map fst resp) =
       {''protocol_version'', ''network_id'', ''td'', ''best_hash'', ''genesis_hash''} \<and>
     distinct (map fst resp) \<and>
     map_of resp ''protocol_version'' = Some (PyInt 63) \<and>
     map_of resp ''network_id'' = Some (network_id (peer (proto s))) \<and>
     map_of resp ''td'' = Some (total_difficulty head_info) \<and>
     map_of resp ''best_hash'' = Some (block_hash head_info) \<and>
     map_of resp ''genesis_hash'' = Some (genesis_hash head_info) \<and>
     send_handshake encode send head_info s =
       hand_over send (encode (Status, cmd_id_offset (proto s)) (PyDict resp))
         (s\<lparr>debug_log := debug_log s @ [(''Sending ETH/Status msg: %s'', PyDict resp)]\<rparr>)"
  unfolding send_handshake_def Let_def version_def
  by (rule exI [of _ "[(''protocol_version'', PyInt 63),
        (''network_id'', network_id (peer (proto s))),
        (''td'', total_difficulty head_info),
        (''best_hash'', block_hash head_info),
        (''genesis_hash'', genesis_hash head_info)]"]) simp

section \<open>Requests\<close>

text \<open>
  C4. For every HeaderRequest, \<open>send_get_block_headers\<close> has the GetBlockHeaders command
  encode a mapping with exactly the keys block_number_or_hash, max_headers, skip and
  reverse, each once, whose values are the fields of the descriptor, unchanged. A request
  starting at block number 42 with max_headers 5, skip 0 and reverse false gives the
  payload \<open>{block_number_or_hash: 42, max_headers: 5, skip: 0, reverse: false}\<close>.
\<close>

theorem send_get_block_headers_payload:
  "(\<exists>data.
      set (map fst data) = {''block_number_or_hash'', ''max_headers'', ''skip'', ''reverse''} \<and>
      distinct (map fst data) \<and>
      map_of data ''block_number_or_hash'' = Some (block_number_or_hash request) \<and>
      map_of data ''max_headers'' = Some (max_headers request) \<and>
      map_of data ''skip'' = Some (skip request) \<and>
      map_of data ''reverse'' = Some (reverse request) \<and>
      send_get_block_headers encode send request s =
        hand_over send (encode (GetBlockHeaders, cmd_id_offset (proto s)) (PyDict data)) s) \<and>
   send_get_block_headers encode send
       \<lparr>block_number_or_hash = PyInt 42, max_headers = PyInt 5,
        skip = PyInt 0, reverse = PyBool False\<rparr> s =
     hand_over send
       (encode (GetBlockHeaders, cmd_id_offset (proto s))
          (PyDict [(''block_number_or_hash'', PyInt 42), (''max_headers'', PyInt 5),
                   (''skip'', PyInt 0), (''reverse'', PyBool False)])) s"
proof (rule conjI)
  let ?data = "[(''block_number_or_hash'', block_number_or_hash request),
                (''max_headers'', max_headers request),
                (''skip'', skip request),
                (''reverse'', reverse request)]"
  show "\<exists>data.
      set (map fst data) = {''block_number_or_hash'', ''max_headers'', ''skip'', ''reverse''} \<and>
      distinct (map fst data) \<and>
      map_of data ''block_number_or_hash'' = Some (block_number_or_hash request) \<and>
      map_of data ''max_headers'' = Some (max_headers request) \<and>
      map_of data ''skip'' = Some (skip request) \<and>
      map_of data ''reverse'' = Some (reverse request) \<and>
      send_get_block_headers encode send request s =
        hand_over send (encode (GetBlockHeaders, cmd_id_offset (proto s)) (PyDict data)) s"
    unfolding send_get_block_headers_def priv_send_get_block_headers_def Let_def
    by (rule exI [of _ ?data]) simp
next
  show "send_get_block_headers encode send
       \<lparr>block_number_or_hash = PyInt 42, max_headers = PyInt 5,
        skip = PyInt 0, reverse = PyBool False\<rparr> s =
     hand_over send
       (encode (GetBlockHeaders, cmd_id_offset (proto s))
          (PyDict [(''block_number_or_hash'', PyInt 42), (''max_headers'', PyInt 5),
                   (''skip'', PyInt 0), (''reverse'', PyBool False)])) s"
    unfolding send_get_block_headers_def priv_send_get_block_headers_def Let_def
    by simp
qed

text \<open>
  C5. The payload that \<open>send_get_block_bodies\<close>, \<open>send_get_receipts\<close> and
  \<open>send_get_node_data\<close> give to the encoder of GetBlockBodies, GetReceipts and GetNodeData
  is the value carried by the request, as it is. For a request that carries the sequence
  of hashes \<open>hs\<close>, the payload is that sequence: the same hashes in the same order, none
  added and none dropped.
\<close>

theorem get_requests_pass_hashes_unchanged:
  "send_get_block_bodies encode send bb_req s =
     hand_over send
       (encode (GetBlockBodies, cmd_id_offset (proto s))
          (block_bodies_request.block_hashes bb_req)) s \<and>
   send_get_receipts encode send rc_req s =
     hand_over send
       (encode (GetReceipts, cmd_id_offset (proto s))
          (receipts_request.block_hashes rc_req)) s \<and>
   send_get_node_data encode send nd_req s =
     hand_over send
       (encode (GetNodeData, cmd_id_offset (proto s)) (node_hashes nd_req)) s \<and>
   send_get_block_bodies encode send
       \<lparr>block_bodies_request.block_hashes = PySeq (map PyBytes hs)\<rparr> s =
     hand_over send
       (encode (GetBlockBodies, cmd_id_offset (proto s)) (PySeq (map PyBytes hs))) s \<and>
   send_get_receipts encode send
       \<lparr>receipts_request.block_hashes = PySeq (map PyBytes hs)\<rparr> s =
     hand_over send
       (encode (GetReceipts, cmd_id_offset (proto s)) (PySeq (map PyBytes hs))) s \<and>
   send_get_node_data encode send \<lparr>node_hashes = PySeq (map PyBytes hs)\<rparr> s =
     hand_over send
       (encode (GetNodeData, cmd_id_offset (proto s)) (PySeq (map PyBytes hs))) s"
  unfolding send_get_block_bodies_def priv_send_get_block_bodies_def
    send_get_receipts_def priv_send_get_receipts_def
    send_get_node_data_def priv_send_get_node_data_def Let_def
  by simp

text \<open>
  C10. The public entry point of each request family gives the same outcome as the
  internal constructor applied to the fields of the descriptor: it forwards the fields
  and does nothing else.
\<close>

theorem public_entry_forwards_fields:
  "send_get_node_data encode send nd_req s =
     priv_send_get_node_data encode send (node_hashes nd_req) s \<and>
   send_get_block_headers encode send hd_req s =
     priv_send_get_block_headers encode send
       (block_number_or_hash hd_req) (max_headers hd_req) (skip hd_req) (reverse hd_req) s \<and>
   send_get_block_bodies encode send bb_req s =
     priv_send_get_block_bodies encode send (block_bodies_request.block_hashes bb_req) s \<and>
   send_get_receipts encode send rc_req s =
     priv_send_get_receipts encode send (receipts_request.block_hashes rc_req) s"
  by (simp add: send_get_node_data_def send_get_block_headers_def
      send_get_block_bodies_def send_get_receipts_def)

section \<open>Responses and announcements\<close>

text \<open>
  C6. \<open>send_block_headers\<close>, \<open>send_block_bodies\<close>, \<open>send_receipts\<close>, \<open>send_node_data\<close> and
  \<open>send_transactions\<close> give their argument to the encoder of the resolved command exactly
  as it came (nothing extracted, reshaped or reordered) and hand the encoded frame to the
  transport.
\<close>

theorem responses_pass_sequence_unchanged:
  "send_block_headers encode send headers s =
     hand_over send (encode (BlockHeaders, cmd_id_offset (proto s)) headers) s \<and>
   send_block_bodies encode send blocks s =
     hand_over send (encode (BlockBodies, cmd_id_offset (proto s)) blocks) s \<and>
   send_receipts encode send receipts s =
     hand_over send (encode (Receipts, cmd_id_offset (proto s)) receipts) s \<and>
   send_node_data encode send nodes s =
     hand_over send (encode (NodeData, cmd_id_offset (proto s)) nodes) s \<and>
   send_transactions encode send transactions s =
     hand_over send (encode (Transactions, cmd_id_offset (proto s)) transactions) s"
  unfolding send_block_headers_def send_block_bodies_def send_receipts_def
    send_node_data_def send_transactions_def Let_def
  by simp

section \<open>Properties of every sender\<close>

text \<open>
  C8. No method of the class changes the protocol instance (the peer with its network
  identifier, and the command-ID offset). The state a method gives to the transport, or
  returns when the encoder raises, holds the instance the method was called with; and so,
  with a transport that does not change the instance itself, the instance after the call
  is the instance before it, whether the call completed or raised.
\<close>
theorem senders_leave_instance_unchanged:
  assumes transport_keeps_instance:
    "\<And>header body t. proto (snd (send header body t)) = proto t"
  shows "(\<exists>fr t. proto t = proto s \<and> transport t = transport s \<and>
      send_handshake encode send head_info s = hand_over send fr t) \<and>
   (\<exists>fr. send_get_node_data encode send nd_req s = hand_over send fr s) \<and>
   (\<exists>fr. send_node_data encode send nodes s = hand_over send fr s) \<and>
   (\<exists>fr. send_get_block_headers encode send hd_req s = hand_over send fr s) \<and>
   (\<exists>fr. send_block_headers encode send headers s = hand_over send fr s) \<and>
   (\<exists>fr. send_get_block_bodies encode send bb_req s = hand_over send fr s) \<and>
   (\<exists>fr. send_block_bodies encode send blocks s = hand_over send fr s) \<and>
   (\<exists>fr. send_get_receipts encode send rc_req s = hand_over send fr s) \<and>
   (\<exists>fr. send_receipts encode send receipts s = hand_over send fr s) \<and>
   (\<exists>fr. send_transactions encode send transactions s = hand_over send fr s) \<and>
   proto (snd (send_handshake encode send head_info s)) = proto s \<and>
   proto (snd (send_get_node_data encode send nd_req s)) = proto s \<and>
   proto (snd (send_node_data encode send nodes s)) = proto s \<and>
   proto (snd (send_get_block_headers encode send hd_req s)) = proto s \<and>
   proto (snd (send_block_headers encode send headers s)) = proto s \<and>
   proto (snd (send_get_block_bodies encode send bb_req s)) = proto s \<and>
   proto (snd (send_block_bodies encode send blocks s)) = proto s \<and>
   proto (snd (send_get_receipts encode send rc_req s)) = proto s \<and>
   proto (snd (send_receipts encode send receipts s)) = proto s \<and>
   proto (snd (send_transactions encode send transactions s)) = proto s \<and>
   proto (snd (priv_send_get_node_data encode send hashes s)) = proto s \<and>
   proto (snd (priv_send_get_block_headers encode send start limit gap backwards s)) =
     proto s \<and>
   proto (snd (priv_send_get_block_bodies encode send hashes s)) = proto s \<and>
   proto (snd (priv_send_get_receipts encode send hashes s)) = proto s"
  unfolding sender_defs Let_def
  by (intro conjI exI) (simp_all add: transport_keeps_instance split: sum.split)

text \<open>
  The theorem at a concrete input: a transport that appends the frame to its queue, a
  completed handshake, a request whose encoding raises, and a completed announcement.
\<close>

theorem senders_leave_instance_unchanged_witness:
  "(\<forall>header body (t :: (unit, (bytes \<times> bytes) list) session).
      proto (snd ((\<lambda>header body t. (Inr (), t\<lparr>transport := transport t @ [(header, body)]\<rparr>))
                    header body t :: (string + unit) \<times> _)) = proto t) \<and>
   proto (snd (send_handshake ((\<lambda>cmd p. Inr ([word_of_int (snd cmd)], [])) :: (string, unit) encoder)
       (\<lambda>header body t. (Inr (), t\<lparr>transport := transport t @ [(header, body)]\<rparr>)) \<lparr>total_difficulty = PyInt 100, block_hash = PyBytes [1], genesis_hash = PyBytes [2]\<rparr>
       (\<lparr>proto = \<lparr>peer = \<lparr>network_id = PyInt 1\<rparr>, cmd_id_offset = 16\<rparr>,
       transport = [], debug_log = []\<rparr> :: (unit, (bytes \<times> bytes) list) session))) =
     \<lparr>peer = \<lparr>network_id = PyInt 1\<rparr>, cmd_id_offset = 16\<rparr> \<and>
   proto (snd (send_get_node_data ((\<lambda>cmd p. Inl ''wrong shape'') :: (string, unit) encoder)
       (\<lambda>header body t. (Inr (), t\<lparr>transport := transport t @ [(header, body)]\<rparr>)) \<lparr>node_hashes = PySeq [PyBytes [1], PyBytes [2], PyBytes [3]]\<rparr>
       (\<lparr>proto = \<lparr>peer = \<lparr>network_id = PyInt 1\<rparr>, cmd_id_offset = 16\<rparr>,
       transport = [], debug_log = []\<rparr> :: (unit, (bytes \<times> bytes) list) session))) =
     \<lparr>peer = \<lparr>network_id = PyInt 1\<rparr>, cmd_id_offset = 16\<rparr> \<and>
   proto (snd (send_transactions ((\<lambda>cmd p. Inr ([word_of_int (snd cmd)], [])) :: (string, unit) encoder)
       (\<lambda>header body t. (Inr (), t\<lparr>transport := transport t @ [(header, body)]\<rparr>)) (PySeq [PyObj (), PyObj ()])
       (\<lparr>proto = \<lparr>peer = \<lparr>network_id = PyInt 1\<rparr>, cmd_id_offset = 16\<rparr>,
       transport = [], debug_log = []\<rparr> :: (unit, (bytes \<times> bytes) list) session))) =
     \<lparr>peer = \<lparr>network_id = PyInt 1\<rparr>, cmd_id_offset = 16\<rparr>"
proof -
  have keeps: "\<And>header body (t :: (unit, (bytes \<times> bytes) list) session).
      proto (snd ((\<lambda>header body t. (Inr (), t\<lparr>transport := transport t @ [(header, body)]\<rparr>))
                    header body t :: (string + unit) \<times> _)) = proto t"
    by simp
  show ?thesis
    using senders_leave_instance_unchanged [where send = "\<lambda>header body t. (Inr (), t\<lparr>transport := transport t @ [(header, body)]\<rparr>)", OF keeps]
    by simp
qed

text \<open>
  C9. The senders check nothing and pass every error through. Whatever the fields of the
  descriptor or of the ChainInfo hold, the payload is built from them and given to the
  encoder. When the encoder raises \<open>e\<close>, the call raises \<open>e\<close> and the transport is not
  reached; when the encoder returns a frame, the outcome of the call is the outcome of the
  transport on that frame, its error included. No error is caught, wrapped or dropped,
  and nothing is tried again.
\<close>
theorem errors_pass_through:
  "(encode (Status, cmd_id_offset (proto s)) (PyDict [(''protocol_version'', PyInt 63),
                 (''network_id'', network_id (peer (proto s))),
                 (''td'', total_difficulty head_info),
                 (''best_hash'', block_hash head_info),
                 (''genesis_hash'', genesis_hash head_info)]) = Inl e \<longrightarrow>
      send_handshake encode send head_info s =
        (Inl e, s\<lparr>debug_log := debug_log s @
          [(''Sending ETH/Status msg: %s'',
          (PyDict [(''protocol_version'', PyInt 63),
                  (''network_id'', network_id (peer (proto s))),
                  (''td'', total_difficulty head_info),
                  (''best_hash'', block_hash head_info),
                  (''genesis_hash'', genesis_hash head_info)]))]\<rparr>)) \<and>
   (encode (Status, cmd_id_offset (proto s)) (PyDict [(''protocol_version'', PyInt 63),
                 (''network_id'', network_id (peer (proto s))),
                 (''td'', total_difficulty head_info),
                 (''best_hash'', block_hash head_info),
                 (''genesis_hash'', genesis_hash head_info)]) = Inr (header, body) \<longrightarrow>
      send_handshake encode send head_info s =
        send header body (s\<lparr>debug_log := debug_log s @
          [(''Sending ETH/Status msg: %s'',
          (PyDict [(''protocol_version'', PyInt 63),
                  (''network_id'', network_id (peer (proto s))),
                  (''td'', total_difficulty head_info),
                  (''best_hash'', block_hash head_info),
                  (''genesis_hash'', genesis_hash head_info)]))]\<rparr>)) \<and>
   (encode (GetNodeData, cmd_id_offset (proto s)) (node_hashes nd_req) = Inl e \<longrightarrow>
      send_get_node_data encode send nd_req s = (Inl e, s)) \<and>
   (encode (GetNodeData, cmd_id_offset (proto s)) (node_hashes nd_req) = Inr (header, body) \<longrightarrow>
      send_get_node_data encode send nd_req s = send header body s) \<and>
   (encode (NodeData, cmd_id_offset (proto s)) nodes = Inl e \<longrightarrow>
      send_node_data encode send nodes s = (Inl e, s)) \<and>
   (encode (NodeData, cmd_id_offset (proto s)) nodes = Inr (header, body) \<longrightarrow>
      send_node_data encode send nodes s = send header body s) \<and>
   (encode (GetBlockHeaders, cmd_id_offset (proto s)) (PyDict [(''block_number_or_hash'', block_number_or_hash hd_req),
                 (''max_headers'', max_headers hd_req),
                 (''skip'', skip hd_req),
                 (''reverse'', reverse hd_req)]) = Inl e \<longrightarrow>
      send_get_block_headers encode send hd_req s = (Inl e, s)) \<and>
   (encode (GetBlockHeaders, cmd_id_offset (proto s)) (PyDict [(''block_number_or_hash'', block_number_or_hash hd_req),
                 (''max_headers'', max_headers hd_req),
                 (''skip'', skip hd_req),
                 (''reverse'', reverse hd_req)]) = Inr (header, body) \<longrightarrow>
      send_get_block_headers encode send hd_req s = send header body s) \<and>
   (encode (BlockHeaders, cmd_id_offset (proto s)) headers = Inl e \<longrightarrow>
      send_block_headers encode send headers s = (Inl e, s)) \<and>
   (encode (BlockHeaders, cmd_id_offset (proto s)) headers = Inr (header, body) \<longrightarrow>
      send_block_headers encode send headers s = send header body s) \<and>
   (encode (GetBlockBodies, cmd_id_offset (proto s)) (block_bodies_request.block_hashes bb_req) = Inl e \<longrightarrow>
      send_get_block_bodies encode send bb_req s = (Inl e, s)) \<and>
   (encode (GetBlockBodies, cmd_id_offset (proto s)) (block_bodies_request.block_hashes bb_req) = Inr (header, body) \<longrightarrow>
      send_get_block_bodies encode send bb_req s = send header body s) \<and>
   (encode (BlockBodies, cmd_id_offset (proto s)) blocks = Inl e \<longrightarrow>
      send_block_bodies encode send blocks s = (Inl e, s)) \<and>
   (encode (BlockBodies, cmd_id_offset (proto s)) blocks = Inr (header, body) \<longrightarrow>
      send_block_bodies encode send blocks s = send header body s) \<and>
   (encode (GetReceipts, cmd_id_offset (proto s)) (receipts_request.block_hashes rc_req) = Inl e \<longrightarrow>
      send_get_receipts encode send rc_req s = (Inl e, s)) \<and>
   (encode (GetReceipts, cmd_id_offset (proto s)) (receipts_request.block_hashes rc_req) = Inr (header, body) \<longrightarrow>
      send_get_receipts encode send rc_req s = send header body s) \<and>
   (encode (Receipts, cmd_id_offset (proto s)) receipts = Inl e \<longrightarrow>
      send_receipts encode send receipts s = (Inl e, s)) \<and>
   (encode (Receipts, cmd_id_offset (proto s)) receipts = Inr (header, body) \<longrightarrow>
      send_receipts encode send receipts s = send header body s) \<and>
   (encode (Transactions, cmd_id_offset (proto s)) transactions = Inl e \<longrightarrow>
      send_transactions encode send transactions s = (Inl e, s)) \<and>
   (encode (Transactions, cmd_id_offset (proto s)) transactions = Inr (header, body) \<longrightarrow>
      send_transactions encode send transactions s = send header body s)"
  unfolding sender_defs Let_def version_def
  by simp

text \<open>
  The theorem at concrete inputs: an encoder that raises (the handshake and a request end
  with its error, the queue of the transport stays empty), and a transport that raises
  after a successful encoding (a request and a response end with its error).
\<close>

theorem errors_pass_through_witness:
  "send_handshake ((\<lambda>cmd p. Inl ''wrong shape'') :: (string, unit) encoder)
     (\<lambda>header body t. (Inr (), t\<lparr>transport := transport t @ [(header, body)]\<rparr>)) \<lparr>total_difficulty = PyInt 100, block_hash = PyBytes [1], genesis_hash = PyBytes [2]\<rparr>
     (\<lparr>proto = \<lparr>peer = \<lparr>network_id = PyInt 1\<rparr>, cmd_id_offset = 16\<rparr>,
       transport = [], debug_log = []\<rparr> :: (unit, (bytes \<times> bytes) list) session) =
   (Inl ''wrong shape'',
    \<lparr>proto = \<lparr>peer = \<lparr>network_id = PyInt 1\<rparr>, cmd_id_offset = 16\<rparr>, transport = [],
     debug_log = [(''Sending ETH/Status msg: %s'',
       PyDict [(''protocol_version'', PyInt 63), (''network_id'', PyInt 1),
        (''td'', PyInt 100), (''best_hash'', PyBytes [1]), (''genesis_hash'', PyBytes [2])])]\<rparr>) \<and>
   send_get_node_data ((\<lambda>cmd p. Inl ''wrong shape'') :: (string, unit) encoder)
     (\<lambda>header body t. (Inr (), t\<lparr>transport := transport t @ [(header, body)]\<rparr>)) \<lparr>node_hashes = PySeq [PyBytes [1], PyBytes [2], PyBytes [3]]\<rparr>
     (\<lparr>proto = \<lparr>peer = \<lparr>network_id = PyInt 1\<rparr>, cmd_id_offset = 16\<rparr>,
       transport = [], debug_log = []\<rparr> :: (unit, (bytes \<times> bytes) list) session) =
   (Inl ''wrong shape'',
    (\<lparr>proto = \<lparr>peer = \<lparr>network_id = PyInt 1\<rparr>, cmd_id_offset = 16\<rparr>,
       transport = [], debug_log = []\<rparr> :: (unit, (bytes \<times> bytes) list) session)) \<and>
   send_get_node_data ((\<lambda>cmd p. Inr ([word_of_int (snd cmd)], [])) :: (string, unit) encoder)
     (\<lambda>header body t. (Inl ''connection closed'', t)) \<lparr>node_hashes = PySeq [PyBytes [1], PyBytes [2], PyBytes [3]]\<rparr>
     (\<lparr>proto = \<lparr>peer = \<lparr>network_id = PyInt 1\<rparr>, cmd_id_offset = 16\<rparr>,
       transport = [], debug_log = []\<rparr> :: (unit, (bytes \<times> bytes) list) session) =
   (Inl ''connection closed'',
    (\<lparr>proto = \<lparr>peer = \<lparr>network_id = PyInt 1\<rparr>, cmd_id_offset = 16\<rparr>,
       transport = [], debug_log = []\<rparr> :: (unit, (bytes \<times> bytes) list) session)) \<and>
   send_block_headers ((\<lambda>cmd p. Inr ([word_of_int (snd cmd)], [])) :: (string, unit) encoder)
     (\<lambda>header body t. (Inl ''connection closed'', t)) (PySeq [PyObj (), PyObj ()])
     (\<lparr>proto = \<lparr>peer = \<lparr>network_id = PyInt 1\<rparr>, cmd_id_offset = 16\<rparr>,
       transport = [], debug_log = []\<rparr> :: (unit, (bytes \<times> bytes) list) session) =
   (Inl ''connection closed'',
    (\<lparr>proto = \<lparr>peer = \<lparr>network_id = PyInt 1\<rparr>, cmd_id_offset = 16\<rparr>,
       transport = [], debug_log = []\<rparr> :: (unit, (bytes \<times> bytes) list) session))"
  using
    errors_pass_through [where encode = "(\<lambda>cmd p. Inl ''wrong shape'') :: (string, unit) encoder"
      and s = "\<lparr>proto = \<lparr>peer = \<lparr>network_id = PyInt 1\<rparr>, cmd_id_offset = 16\<rparr>,
       transport = [], debug_log = []\<rparr> :: (unit, (bytes \<times> bytes) list) session"
      and e = "''wrong shape''"]
    errors_pass_through [where encode = "(\<lambda>cmd p. Inr ([word_of_int (snd cmd)], [])) :: (string, unit) encoder"
      and s = "\<lparr>proto = \<lparr>peer = \<lparr>network_id = PyInt 1\<rparr>, cmd_id_offset = 16\<rparr>,
       transport = [], debug_log = []\<rparr> :: (unit, (bytes \<times> bytes) list) session"
      and header = "[16]" and body = "[]"
      and send = "\<lambda>header body t. (Inl ''connection closed'', t)"]
  by simp

end
